theory Spec2Isabelle
  imports Main "HOL-Library.Word"
begin

unbundle bit_operations_syntax

section \<open>Data model\<close>

text \<open>
  The native library \<^verbatim>\<open>org_cryptomator_windows_keychain_WinHello_Native.cpp\<close> exposes two
  JNI entry points, \<^verbatim>\<open>setEncryptionKey\<close> and \<^verbatim>\<open>getEncryptionKey\<close>, and one internal
  function \<^verbatim>\<open>deriveEncryptionKey\<close>. All cryptography and all credential handling is done
  by the Windows Runtime; the file only sequences the calls and handles their failures.

  A \<^verbatim>\<open>std::vector<uint8_t>\<close> and the content of an \<^verbatim>\<open>IBuffer\<close> are byte lists. A
  \<^verbatim>\<open>jbyteArray\<close> is a reference that may be null.
\<close>

type_synonym uint8 = "8 word"
type_synonym bytes = "uint8 list"
type_synonym jbyteArray = "bytes option"

text \<open>The enumerations of \<^verbatim>\<open>Windows.Security.Credentials\<close> and of the algorithm names.\<close>

datatype KeyCredentialStatus =
  Success | UnknownError | NotFound | UserCanceled | UserPrefersPassword
  | CredentialAlreadyExists | SecurityDeviceLocked

datatype KeyCredentialCreationOption = ReplaceExisting | FailIfExists

datatype HashAlgorithmName = Md5 | Sha1 | Sha256 | Sha384 | Sha512

datatype SymmetricAlgorithmName = AesCbc | AesCbcPkcs7 | AesEcb | AesEcbPkcs7 | AesGcm

text \<open>
  \<^verbatim>\<open>winrt::hresult_error\<close>: the exception with which the C++/WinRT projection reports a
  failed call. It is not derived from \<^verbatim>\<open>std::exception\<close>.
\<close>

datatype hresult_error = Hresult_error (message: string)

text \<open>
  \<^verbatim>\<open>KeyCredentialRetrievalResult\<close> (status and credential; the credential is a null
  reference unless the status is \<^verbatim>\<open>Success\<close>) and \<^verbatim>\<open>KeyCredentialOperationResult\<close>
  (status and signature buffer).
\<close>

datatype 'c KeyCredentialRetrievalResult =
  KeyCredentialRetrievalResult (Status: KeyCredentialStatus) (Credential: "'c option")

datatype KeyCredentialOperationResult =
  KeyCredentialOperationResult (OpStatus: KeyCredentialStatus) (Result: bytes)

text \<open>
  The platform, as the code sees it during one call of an entry point. Every function
  of the platform is called at most once per call of an entry point, so a table of
  answers describes any behaviour of the platform during that call, including that of
  a user who cancels. \<open>Inl\<close> is a thrown \<^verbatim>\<open>hresult_error\<close>.

  \<open>'c\<close> is the type of credential handles, \<open>'k\<close> that of \<^verbatim>\<open>CryptographicKey\<close>
  objects. \<open>HashData\<close> stands for \<^verbatim>\<open>HashAlgorithmProvider::OpenAlgorithm(name).HashData\<close>,
  \<open>CreateSymmetricKey\<close> for
  \<^verbatim>\<open>SymmetricKeyAlgorithmProvider::OpenAlgorithm(name).CreateSymmetricKey\<close>; the
  arguments of \<open>Encrypt\<close> and \<open>Decrypt\<close> are key, data and initialization vector, in
  the order of \<^verbatim>\<open>CryptographicEngine::Encrypt(key, data, iv)\<close>.
\<close>

record 'c hello =
  init_apartment :: "hresult_error option"
  RequestCreateAsync ::
    "string \<Rightarrow> KeyCredentialCreationOption \<Rightarrow> hresult_error + 'c KeyCredentialRetrievalResult"
  OpenAsync :: "string \<Rightarrow> hresult_error + 'c KeyCredentialRetrievalResult"
  RequestSignAsync :: "'c \<Rightarrow> bytes \<Rightarrow> hresult_error + KeyCredentialOperationResult"

record 'k crypto =
  HashData :: "HashAlgorithmName \<Rightarrow> bytes \<Rightarrow> hresult_error + bytes"
  CreateSymmetricKey :: "SymmetricAlgorithmName \<Rightarrow> bytes \<Rightarrow> hresult_error + 'k"
  Encrypt :: "'k \<Rightarrow> bytes \<Rightarrow> bytes \<Rightarrow> hresult_error + bytes"
  Decrypt :: "'k \<Rightarrow> bytes \<Rightarrow> bytes \<Rightarrow> hresult_error + bytes"

text \<open>
  How the evaluation of a piece of C++ ends: with a value, with a thrown
  \<^verbatim>\<open>winrt::hresult_error\<close>, with a thrown \<^verbatim>\<open>std::exception\<close> (its \<^verbatim>\<open>what()\<close>), or with
  an access violation (a method called through a null reference), which no handler
  of the file catches. Beside it stands what was written to \<^verbatim>\<open>std::cout\<close>, one string
  per line.
\<close>

datatype 'a cxx = Value 'a | Throw_hresult hresult_error | Throw_std string | Fault

type_synonym 'a run = "'a cxx \<times> string list"

section \<open>The source\<close>

definition s_winHelloKeyName :: string where
  "s_winHelloKeyName = ''cryptomator_winhello''"

definition jbyteArrayToVector :: "jbyteArray \<Rightarrow> bytes" where
  "jbyteArrayToVector array = (case array of None \<Rightarrow> [] | Some content \<Rightarrow> content)"

definition vectorToJbyteArray :: "bytes \<Rightarrow> jbyteArray" where
  "vectorToJbyteArray vec = Some vec"

definition iBufferToVector :: "bytes \<Rightarrow> bytes" where
  "iBufferToVector buffer = (if length buffer = 0 then [] else buffer)"

text \<open>
  Lines 71 to 84 of \<^verbatim>\<open>deriveEncryptionKey\<close>: sign the challenge with the credential of
  \<open>result\<close>, and hash the signature. The result is the returned \<^verbatim>\<open>bool\<close> and the value
  of the reference parameter \<^verbatim>\<open>key\<close> at the return.
\<close>

definition deriveEncryptionKey_sign ::
  "'c hello \<Rightarrow> 'k crypto \<Rightarrow> 'c KeyCredentialRetrievalResult \<Rightarrow> bytes \<Rightarrow> bytes
     \<Rightarrow> (bool \<times> bytes) run" where
  "deriveEncryptionKey_sign h c result challenge key =
     (case Credential result of
        None \<Rightarrow> (Fault, [])
      | Some credential \<Rightarrow>
          (case RequestSignAsync h credential challenge of
             Inl ex \<Rightarrow> (Throw_hresult ex, [])
           | Inr signature \<Rightarrow>
               if OpStatus signature \<noteq> Success then
                 (Value (False, key),
                  if OpStatus signature \<noteq> UserCanceled
                  then [''Failed to sign challenge using Windows Hello.''] else [])
               else
                 (case HashData c Sha256 (Result signature) of
                    Inl ex \<Rightarrow> (Throw_hresult ex, [])
                  | Inr hashBuffer \<Rightarrow> (Value (True, iBufferToVector hashBuffer), []))))"

text \<open>The \<^verbatim>\<open>try\<close> block of \<^verbatim>\<open>deriveEncryptionKey\<close>, lines 60 to 84.\<close>

definition deriveEncryptionKey_try ::
  "'c hello \<Rightarrow> 'k crypto \<Rightarrow> bytes \<Rightarrow> bytes \<Rightarrow> (bool \<times> bytes) run" where
  "deriveEncryptionKey_try h c challenge key =
     (case RequestCreateAsync h s_winHelloKeyName FailIfExists of
        Inl ex \<Rightarrow> (Throw_hresult ex, [])
      | Inr result \<Rightarrow>
          if Status result = CredentialAlreadyExists then
            (case OpenAsync h s_winHelloKeyName of
               Inl ex \<Rightarrow> (Throw_hresult ex, [])
             | Inr result' \<Rightarrow> deriveEncryptionKey_sign h c result' challenge key)
          else if Status result \<noteq> Success then
            (Value (False, key), [''Failed to create Windows Hello credential.''])
          else deriveEncryptionKey_sign h c result challenge key)"

text \<open>
  \<^verbatim>\<open>deriveEncryptionKey\<close>: the \<^verbatim>\<open>try\<close> block and its handler, which catches
  \<^verbatim>\<open>winrt::hresult_error\<close>, prints its message and returns \<^verbatim>\<open>false\<close>.
\<close>

definition deriveEncryptionKey ::
  "'c hello \<Rightarrow> 'k crypto \<Rightarrow> bytes \<Rightarrow> bytes \<Rightarrow> (bool \<times> bytes) run" where
  "deriveEncryptionKey h c challenge key =
     (case deriveEncryptionKey_try h c challenge key of
        (Throw_hresult ex, out) \<Rightarrow> (Value (False, key), out @ [message ex])
      | r \<Rightarrow> r)"

text \<open>
  The \<^verbatim>\<open>try\<close> block of \<^verbatim>\<open>setEncryptionKey\<close>, lines 96 to 117. The key material is passed
  to \<^verbatim>\<open>Encrypt\<close> twice: as the material of the key, and as the initialization vector.
\<close>

definition setEncryptionKey_try ::
  "'c hello \<Rightarrow> 'k crypto \<Rightarrow> jbyteArray \<Rightarrow> jbyteArray \<Rightarrow> jbyteArray run" where
  "setEncryptionKey_try h c cleartext salt =
     (let cleartextVec = jbyteArrayToVector cleartext;
          saltVec = jbyteArrayToVector salt
      in case init_apartment h of
           Some ex \<Rightarrow> (Throw_hresult ex, [])
         | None \<Rightarrow>
             (case deriveEncryptionKey h c saltVec [] of
                (Value (ok, key), out) \<Rightarrow>
                  if \<not> ok then (Throw_std ''Failed to generate the encryption key.'', out)
                  else
                    (let keyMaterial = key in
                     case CreateSymmetricKey c AesCbcPkcs7 keyMaterial of
                       Inl ex \<Rightarrow> (Throw_hresult ex, out)
                     | Inr aesKey \<Rightarrow>
                         (let dataBuffer = cleartextVec in
                          case Encrypt c aesKey dataBuffer keyMaterial of
                            Inl ex \<Rightarrow> (Throw_hresult ex, out)
                          | Inr encryptedBuffer \<Rightarrow>
                              (Value (vectorToJbyteArray (iBufferToVector encryptedBuffer)),
                               out)))
              | (Throw_hresult ex, out) \<Rightarrow> (Throw_hresult ex, out)
              | (Throw_std what, out) \<Rightarrow> (Throw_std what, out)
              | (Fault, out) \<Rightarrow> (Fault, out)))"

text \<open>
  \<^verbatim>\<open>Java_org_cryptomator_windows_keychain_WinHello_00024Native_setEncryptionKey\<close>: the
  \<^verbatim>\<open>try\<close> block and its handler, which catches \<^verbatim>\<open>std::exception\<close>, prints
  \<^verbatim>\<open>"Error: "\<close> and the exception's text, and returns a new array of length 0. Anything
  else leaves the function as it is.
\<close>

definition setEncryptionKey ::
  "'c hello \<Rightarrow> 'k crypto \<Rightarrow> jbyteArray \<Rightarrow> jbyteArray \<Rightarrow> jbyteArray run" where
  "setEncryptionKey h c cleartext salt =
     (case setEncryptionKey_try h c cleartext salt of
        (Throw_std what, out) \<Rightarrow> (Value (Some []), out @ [''Error: '' @ what])
      | r \<Rightarrow> r)"

text \<open>The \<^verbatim>\<open>try\<close> block of \<^verbatim>\<open>getEncryptionKey\<close>, lines 130 to 151.\<close>

definition getEncryptionKey_try ::
  "'c hello \<Rightarrow> 'k crypto \<Rightarrow> jbyteArray \<Rightarrow> jbyteArray \<Rightarrow> jbyteArray run" where
  "getEncryptionKey_try h c ciphertext salt =
     (let ciphertextVec = jbyteArrayToVector ciphertext;
          saltVec = jbyteArrayToVector salt
      in case init_apartment h of
           Some ex \<Rightarrow> (Throw_hresult ex, [])
         | None \<Rightarrow>
             (case deriveEncryptionKey h c saltVec [] of
                (Value (ok, key), out) \<Rightarrow>
                  if \<not> ok then (Throw_std ''Failed to generate the encryption key.'', out)
                  else
                    (let keyMaterial = key in
                     case CreateSymmetricKey c AesCbcPkcs7 keyMaterial of
                       Inl ex \<Rightarrow> (Throw_hresult ex, out)
                     | Inr aesKey \<Rightarrow>
                         (let dataBuffer = ciphertextVec in
                          case Decrypt c aesKey dataBuffer keyMaterial of
                            Inl ex \<Rightarrow> (Throw_hresult ex, out)
                          | Inr decryptedBuffer \<Rightarrow>
                              (Value (vectorToJbyteArray (iBufferToVector decryptedBuffer)),
                               out)))
              | (Throw_hresult ex, out) \<Rightarrow> (Throw_hresult ex, out)
              | (Throw_std what, out) \<Rightarrow> (Throw_std what, out)
              | (Fault, out) \<Rightarrow> (Fault, out)))"

text \<open>
  \<^verbatim>\<open>Java_org_cryptomator_windows_keychain_WinHello_00024Native_getEncryptionKey\<close>, with
  the same handler as \<^verbatim>\<open>setEncryptionKey\<close>.
\<close>

definition getEncryptionKey ::
  "'c hello \<Rightarrow> 'k crypto \<Rightarrow> jbyteArray \<Rightarrow> jbyteArray \<Rightarrow> jbyteArray run" where
  "getEncryptionKey h c ciphertext salt =
     (case getEncryptionKey_try h c ciphertext salt of
        (Throw_std what, out) \<Rightarrow> (Value (Some []), out @ [''Error: '' @ what])
      | r \<Rightarrow> r)"

section \<open>What the platform hands out\<close>

text \<open>
  Two readings of a platform's table of answers, used to state what is assumed of the
  platform: the credential it hands out under the fixed name (created now, or
  existing already and opened), and the signature that credential gives for a
  challenge when the signing succeeds.
\<close>

definition platform_credential :: "'c hello \<Rightarrow> 'c option" where
  "platform_credential h =
     (case RequestCreateAsync h s_winHelloKeyName FailIfExists of
        Inl ex \<Rightarrow> None
      | Inr created \<Rightarrow>
          (case Status created of
             Success \<Rightarrow> Credential created
           | CredentialAlreadyExists \<Rightarrow>
               (case OpenAsync h s_winHelloKeyName of
                  Inl ex \<Rightarrow> None
                | Inr opened \<Rightarrow> Credential opened)
           | _ \<Rightarrow> None))"

definition platform_signature :: "'c hello \<Rightarrow> bytes \<Rightarrow> bytes option" where
  "platform_signature h challenge =
     (case platform_credential h of
        None \<Rightarrow> None
      | Some credential \<Rightarrow>
          (case RequestSignAsync h credential challenge of
             Inl ex \<Rightarrow> None
           | Inr signature \<Rightarrow>
               if OpStatus signature = Success then Some (Result signature) else None))"

text \<open>
  The two facts of AES-CBC with PKCS7 padding and of SHA-256 that claims about lengths
  rest on: the cipher's output is the input padded to the next multiple of the block
  length of 16 bytes (a whole block of padding when the input is a multiple already),
  and a SHA-256 digest has 32 bytes.
\<close>

definition pkcs7_lengths :: "'k crypto \<Rightarrow> bool" where
  "pkcs7_lengths c \<longleftrightarrow>
     (\<forall>material aesKey data iv encrypted.
        CreateSymmetricKey c AesCbcPkcs7 material = Inr aesKey \<and>
        Encrypt c aesKey data iv = Inr encrypted \<longrightarrow>
        length encrypted = (length data div 16 + 1) * 16)"

definition sha256_lengths :: "'k crypto \<Rightarrow> bool" where
  "sha256_lengths c \<longleftrightarrow> (\<forall>data digest. HashData c Sha256 data = Inr digest \<longrightarrow> length digest = 32)"


section \<open>The credential gateway as the specification words it\<close>

text \<open>
  The contract \<^verbatim>\<open>obtainCredential(name)\<close> of the specification, written from its
  words and not from the source, to compare the source with: it attempts the creation
  of a credential under \<open>name\<close>, requesting failure if one already exists; if the
  creation reports that the credential already exists, it opens the existing
  credential under the same name; if the creation fails for any other reason, the
  operation fails with \<open>CredentialUnavailable\<close>. An exception of the platform is
  passed on.
\<close>

datatype 'c obtained =
  Obtained "'c KeyCredentialRetrievalResult" | CredentialUnavailable | Raised hresult_error

definition obtainCredential :: "'c hello \<Rightarrow> string \<Rightarrow> 'c obtained" where
  "obtainCredential h name =
     (case RequestCreateAsync h name FailIfExists of
        Inl ex \<Rightarrow> Raised ex
      | Inr created \<Rightarrow>
          (case Status created of
             Success \<Rightarrow> Obtained created
           | CredentialAlreadyExists \<Rightarrow>
               (case OpenAsync h name of
                  Inl ex \<Rightarrow> Raised ex
                | Inr opened \<Rightarrow> Obtained opened)
           | _ \<Rightarrow> CredentialUnavailable))"

section \<open>Test doubles of the platform\<close>

text \<open>
  A credential provider with one credential, handle 0, under any name. \<open>exists\<close> says
  whether the credential exists before the call; \<open>signer\<close> is the answer of
  \<^verbatim>\<open>RequestSignAsync\<close> to a challenge.
\<close>

definition mock_hello :: "bool \<Rightarrow> (bytes \<Rightarrow> KeyCredentialOperationResult) \<Rightarrow> nat hello" where
  "mock_hello exists signer =
     \<lparr> init_apartment = None,
       RequestCreateAsync = (\<lambda>name option.
         Inr (if exists then KeyCredentialRetrievalResult CredentialAlreadyExists None
              else KeyCredentialRetrievalResult Success (Some 0))),
       OpenAsync = (\<lambda>name.
         Inr (if exists then KeyCredentialRetrievalResult Success (Some 0)
              else KeyCredentialRetrievalResult NotFound None)),
       RequestSignAsync = (\<lambda>credential challenge. Inr (signer challenge)) \<rparr>"

text \<open>
  A stand-in for the cryptographic services with the interface behaviour of the real
  ones and none of their strength. The digest is the input cut or zero-filled to the
  digest length. The cipher is cipher block chaining with PKCS7 padding over a toy
  block cipher (bytewise addition of the first 16 key bytes); it starts the chain
  with the first 16 bytes of the initialization vector, and refuses what the real
  one refuses: a key that is not 16, 24 or 32 bytes long, an input to \<open>Decrypt\<close>
  that is not a positive number of whole blocks, and a decrypted text that does not
  end in a PKCS7 padding.
\<close>

definition digest_length :: "HashAlgorithmName \<Rightarrow> nat" where
  "digest_length name =
     (case name of Md5 \<Rightarrow> 16 | Sha1 \<Rightarrow> 20 | Sha256 \<Rightarrow> 32 | Sha384 \<Rightarrow> 48 | Sha512 \<Rightarrow> 64)"

definition mock_digest :: "HashAlgorithmName \<Rightarrow> bytes \<Rightarrow> bytes" where
  "mock_digest name data = take (digest_length name) (data @ replicate (digest_length name) 0)"

definition pkcs7_pad :: "bytes \<Rightarrow> bytes" where
  "pkcs7_pad data = (let n = 16 - length data mod 16 in data @ replicate n (of_nat n))"

definition pkcs7_unpad :: "bytes \<Rightarrow> bytes option" where
  "pkcs7_unpad data =
     (if data = [] then None
      else let n = unat (last data)
           in if n = 0 \<or> 16 < n \<or> length data < n
                 \<or> drop (length data - n) data \<noteq> replicate n (last data)
              then None
              else Some (take (length data - n) data))"

primrec chunks :: "nat \<Rightarrow> bytes \<Rightarrow> bytes list" where
  "chunks 0 data = []"
| "chunks (Suc m) data = take 16 data # chunks m (drop 16 data)"

definition toy_block_encrypt :: "bytes \<Rightarrow> bytes \<Rightarrow> bytes" where
  "toy_block_encrypt material block = map2 (+) block (take 16 material)"

definition toy_block_decrypt :: "bytes \<Rightarrow> bytes \<Rightarrow> bytes" where
  "toy_block_decrypt material block = map2 (-) block (take 16 material)"

fun cbc_encrypt :: "bytes \<Rightarrow> bytes \<Rightarrow> bytes list \<Rightarrow> bytes list" where
  "cbc_encrypt material previous [] = []"
| "cbc_encrypt material previous (block # blocks) =
     (let encrypted = toy_block_encrypt material (map2 (XOR) block previous)
      in encrypted # cbc_encrypt material encrypted blocks)"

fun cbc_decrypt :: "bytes \<Rightarrow> bytes \<Rightarrow> bytes list \<Rightarrow> bytes list" where
  "cbc_decrypt material previous [] = []"
| "cbc_decrypt material previous (block # blocks) =
     map2 (XOR) (toy_block_decrypt material block) previous
       # cbc_decrypt material block blocks"

definition mock_encrypt :: "bytes \<Rightarrow> bytes \<Rightarrow> bytes \<Rightarrow> hresult_error + bytes" where
  "mock_encrypt material data iv =
     (if length iv < 16 then Inl (Hresult_error ''The parameter is incorrect.'')
      else let padded = pkcs7_pad data
           in Inr (concat (cbc_encrypt material (take 16 iv)
                     (chunks (length padded div 16) padded))))"

definition mock_decrypt :: "bytes \<Rightarrow> bytes \<Rightarrow> bytes \<Rightarrow> hresult_error + bytes" where
  "mock_decrypt material data iv =
     (if length iv < 16 \<or> data = [] \<or> length data mod 16 \<noteq> 0
      then Inl (Hresult_error ''The parameter is incorrect.'')
      else case pkcs7_unpad (concat (cbc_decrypt material (take 16 iv)
                  (chunks (length data div 16) data))) of
             None \<Rightarrow> Inl (Hresult_error ''Bad data.'')
           | Some plain \<Rightarrow> Inr plain)"

definition mock_crypto :: "bytes crypto" where
  "mock_crypto =
     \<lparr> HashData = (\<lambda>name data. Inr (mock_digest name data)),
       CreateSymmetricKey = (\<lambda>name material.
         if name = AesCbcPkcs7 \<and> length material \<in> {16, 24, 32} then Inr material
         else Inl (Hresult_error ''The parameter is incorrect.'')),
       Encrypt = mock_encrypt,
       Decrypt = mock_decrypt \<rparr>"

text \<open>Signers: one that returns the challenge as its signature, and ones that fail.\<close>

definition echo_signer :: "bytes \<Rightarrow> KeyCredentialOperationResult" where
  "echo_signer challenge = KeyCredentialOperationResult Success challenge"

definition fixed_signer :: "bytes \<Rightarrow> bytes \<Rightarrow> KeyCredentialOperationResult" where
  "fixed_signer signature challenge = KeyCredentialOperationResult Success signature"

definition failing_signer :: "KeyCredentialStatus \<Rightarrow> bytes \<Rightarrow> KeyCredentialOperationResult" where
  "failing_signer status challenge = KeyCredentialOperationResult status []"

text \<open>A credential provider whose security device is locked: no credential can be created.\<close>

definition locked_hello :: "nat hello" where
  "locked_hello =
     (mock_hello False echo_signer)
       \<lparr>RequestCreateAsync := \<lambda>name option.
          Inr (KeyCredentialRetrievalResult SecurityDeviceLocked None)\<rparr>"

text \<open>
  A cipher that shows what it is handed: its \<open>Encrypt\<close> returns the initialization
  vector.
\<close>

definition iv_spy :: "bytes crypto" where
  "iv_spy = mock_crypto\<lparr>Encrypt := \<lambda>aesKey data iv. Inr iv\<rparr>"

text \<open>
  Concrete data: the challenge \<open>0x00\<close> to \<open>0x0F\<close> of the specification's scenario, a
  challenge that differs from it in one byte, a fixed signature of 64 bytes, and the
  envelope of the plaintext \<open>[1, 2, 3]\<close> under the key that \<open>echo_signer\<close> and
  \<open>mock_crypto\<close> derive from the first challenge.
\<close>

definition challenge16 :: bytes where
  "challenge16 = [0, 1, 2, 3, 4, 5, 6, 7, 8, 9, 10, 11, 12, 13, 14, 15]"

definition challenge16' :: bytes where
  "challenge16' = [0, 0, 2, 3, 4, 5, 6, 7, 8, 9, 10, 11, 12, 13, 14, 15]"

definition signature64 :: bytes where
  "signature64 = replicate 64 0xA5"

definition envelope123 :: bytes where
  "envelope123 = [1, 4, 3, 17, 13, 13, 17, 17, 13, 13, 17, 17, 13, 13, 17, 17]"

section \<open>Basic facts\<close>

lemma iBufferToVector_id: "iBufferToVector buffer = buffer"
  by (simp add: iBufferToVector_def)

section \<open>The test doubles behave like the cipher and the hash\<close>

lemma length_pkcs7_pad: "length (pkcs7_pad data) = (length data div 16 + 1) * 16"
proof -
  have "length data + (16 - length data mod 16) = (length data div 16 + 1) * 16"
    by presburger
  then show ?thesis by (simp add: pkcs7_pad_def Let_def)
qed



lemma chunks_blocks:
  "length data = 16 * m \<Longrightarrow> \<forall>block \<in> set (chunks m data). length block = 16"
proof (induction m arbitrary: data)
  case 0
  then show ?case by simp
next
  case (Suc m)
  then have "length (drop 16 data) = 16 * m" by simp
  with Suc.IH have "\<forall>block \<in> set (chunks m (drop 16 data)). length block = 16" by blast
  with Suc.prems show ?case by simp
qed

lemma length_chunks: "length (chunks m data) = m"
  by (induction m arbitrary: data) simp_all


lemma length_concat_blocks:
  "\<forall>block \<in> set blocks. length block = 16 \<Longrightarrow> length (concat blocks) = 16 * length blocks"
  by (induction blocks) simp_all

lemma length_toy_block_encrypt:
  "16 \<le> length material \<Longrightarrow> length block = 16 \<Longrightarrow> length (toy_block_encrypt material block) = 16"
  by (simp add: toy_block_encrypt_def)




lemma cbc_encrypt_blocks:
  "16 \<le> length material \<Longrightarrow> length previous = 16 \<Longrightarrow>
   \<forall>block \<in> set blocks. length block = 16 \<Longrightarrow>
   length (cbc_encrypt material previous blocks) = length blocks \<and>
   (\<forall>block \<in> set (cbc_encrypt material previous blocks). length block = 16)"
proof (induction blocks arbitrary: previous)
  case Nil
  then show ?case by simp
next
  case (Cons block blocks)
  let ?e = "toy_block_encrypt material (map2 (XOR) block previous)"
  from Cons.prems have e: "length ?e = 16"
    by (simp add: length_toy_block_encrypt)
  from Cons.IH [OF Cons.prems(1) e] Cons.prems(3) e show ?case
    by (simp add: Let_def)
qed


lemma mock_encrypt_length:
  assumes "16 \<le> length material" and "mock_encrypt material data iv = Inr encrypted"
  shows "length encrypted = (length data div 16 + 1) * 16"
proof -
  let ?p = "pkcs7_pad data"
  let ?m = "length data div 16 + 1"
  from assms(2) have iv: "16 \<le> length iv"
    by (simp add: mock_encrypt_def split: if_splits)
  have lp: "length ?p = 16 * ?m" by (simp add: length_pkcs7_pad)
  then have m: "length ?p div 16 = ?m" by simp
  have b: "\<forall>block \<in> set (chunks ?m ?p). length block = 16"
    using lp by (rule chunks_blocks)
  have lc: "length (chunks ?m ?p) = ?m" by (rule length_chunks)
  have t: "length (take 16 iv) = 16" using iv by simp
  let ?out = "cbc_encrypt material (take 16 iv) (chunks ?m ?p)"
  from cbc_encrypt_blocks [OF assms(1) t b]
  have l: "length ?out = length (chunks ?m ?p)" and o: "\<forall>block \<in> set ?out. length block = 16"
    by blast+
  have "length (concat ?out) = 16 * length ?out"
    using o by (rule length_concat_blocks)
  also have "\<dots> = 16 * ?m" unfolding l lc ..
  finally have c: "length (concat ?out) = (length data div 16 + 1) * 16" by simp
  have "encrypted = concat ?out"
    using assms(2) iv unfolding mock_encrypt_def Let_def m by simp
  with c show ?thesis by blast
qed



lemma mock_key_length:
  "CreateSymmetricKey mock_crypto name material = Inr aesKey \<Longrightarrow>
   aesKey = material \<and> 16 \<le> length material"
  by (auto simp: mock_crypto_def split: if_splits)


lemma mock_crypto_pkcs7_lengths: "pkcs7_lengths mock_crypto"
  unfolding pkcs7_lengths_def
proof (intro allI impI, elim conjE)
  fix material aesKey data iv encrypted
  assume k: "CreateSymmetricKey mock_crypto AesCbcPkcs7 material = Inr aesKey"
    and e: "Encrypt mock_crypto aesKey data iv = Inr encrypted"
  from mock_key_length [OF k] have a: "16 \<le> length aesKey" by simp
  from e have "mock_encrypt aesKey data iv = Inr encrypted" by (simp add: mock_crypto_def)
  from mock_encrypt_length [OF a this]
  show "length encrypted = (length data div 16 + 1) * 16" .
qed

lemma mock_crypto_sha256_lengths: "sha256_lengths mock_crypto"
  by (auto simp: sha256_lengths_def mock_crypto_def mock_digest_def digest_length_def)

section \<open>What \<^verbatim>\<open>deriveEncryptionKey\<close> and the entry points compute\<close>

lemma deriveEncryptionKey_signed:
  assumes "platform_signature h challenge = Some S"
  shows "deriveEncryptionKey h c challenge key =
           (case HashData c Sha256 S of
              Inl ex \<Rightarrow> (Value (False, key), [message ex])
            | Inr digest \<Rightarrow> (Value (True, digest), []))"
  using assms
  by (auto simp: platform_signature_def platform_credential_def deriveEncryptionKey_def
      deriveEncryptionKey_try_def deriveEncryptionKey_sign_def iBufferToVector_id
      split: sum.splits option.splits if_splits KeyCredentialStatus.splits)

lemma deriveEncryptionKey_true:
  assumes "deriveEncryptionKey h c challenge key = (Value (True, K), out)"
  shows "out = [] \<and> (\<exists>S. platform_signature h challenge = Some S \<and> HashData c Sha256 S = Inr K)"
  using assms
  by (auto simp: platform_signature_def platform_credential_def deriveEncryptionKey_def
      deriveEncryptionKey_try_def deriveEncryptionKey_sign_def iBufferToVector_id
      split: sum.splits option.splits if_splits KeyCredentialStatus.splits)

lemma setEncryptionKey_success:
  assumes "setEncryptionKey h c cleartext salt = (Value envelope, [])"
  shows "init_apartment h = None \<and>
         (\<exists>K aesKey encrypted.
            deriveEncryptionKey h c (jbyteArrayToVector salt) [] = (Value (True, K), []) \<and>
            CreateSymmetricKey c AesCbcPkcs7 K = Inr aesKey \<and>
            Encrypt c aesKey (jbyteArrayToVector cleartext) K = Inr encrypted \<and>
            envelope = Some encrypted)"
  using assms
  by (auto simp: setEncryptionKey_def setEncryptionKey_try_def Let_def iBufferToVector_id
      vectorToJbyteArray_def
      split: sum.splits option.splits if_splits prod.splits cxx.splits)

lemma getEncryptionKey_decrypts:
  assumes "init_apartment h = None"
    and "deriveEncryptionKey h c (jbyteArrayToVector salt) [] = (Value (True, K), out)"
    and "CreateSymmetricKey c AesCbcPkcs7 K = Inr aesKey"
    and "Decrypt c aesKey (jbyteArrayToVector ciphertext) K = Inr decrypted"
  shows "getEncryptionKey h c ciphertext salt = (Value (Some decrypted), out)"
  using assms
  by (simp add: getEncryptionKey_def getEncryptionKey_try_def Let_def iBufferToVector_id
      vectorToJbyteArray_def)

lemma deriveEncryptionKey_false:
  assumes "init_apartment h = None"
    and "deriveEncryptionKey h c (jbyteArrayToVector salt) [] = (Value (False, key), out)"
  shows "setEncryptionKey h c data salt =
           (Value (Some []), out @ [''Error: Failed to generate the encryption key.'']) \<and>
         getEncryptionKey h c data salt =
           (Value (Some []), out @ [''Error: Failed to generate the encryption key.''])"
  using assms
  by (simp add: setEncryptionKey_def setEncryptionKey_try_def
      getEncryptionKey_def getEncryptionKey_try_def)

lemma cipher_exception_escapes:
  assumes "init_apartment h = None"
    and "deriveEncryptionKey h c (jbyteArrayToVector salt) [] = (Value (True, K), out)"
    and "CreateSymmetricKey c AesCbcPkcs7 K = Inr aesKey"
  shows "Encrypt c aesKey (jbyteArrayToVector data) K = Inl ex \<Longrightarrow>
           setEncryptionKey h c data salt = (Throw_hresult ex, out)"
    and "Decrypt c aesKey (jbyteArrayToVector data) K = Inl ex \<Longrightarrow>
           getEncryptionKey h c data salt = (Throw_hresult ex, out)"
  using assms
  by (simp_all add: setEncryptionKey_def setEncryptionKey_try_def
      getEncryptionKey_def getEncryptionKey_try_def)

lemma platform_exception_escapes:
  shows "init_apartment h = Some ex \<Longrightarrow>
           setEncryptionKey h c data salt = (Throw_hresult ex, []) \<and>
           getEncryptionKey h c data salt = (Throw_hresult ex, [])"
    and "init_apartment h = None \<Longrightarrow>
         deriveEncryptionKey h c (jbyteArrayToVector salt) [] = (Value (True, K), out) \<Longrightarrow>
         CreateSymmetricKey c AesCbcPkcs7 K = Inl ex \<Longrightarrow>
           setEncryptionKey h c data salt = (Throw_hresult ex, out) \<and>
           getEncryptionKey h c data salt = (Throw_hresult ex, out)"
  by (simp_all add: setEncryptionKey_def setEncryptionKey_try_def
      getEncryptionKey_def getEncryptionKey_try_def)

section \<open>The claims\<close>

subsection \<open>C1: round trip\<close>



subsection \<open>C2: the initialization vector\<close>

text \<open>
  C2 as stated (each encryption selects a fresh initialization vector that is
  independent of the key and embeds it in the envelope, so that two encryptions of
  one plaintext under one key differ) does not hold. Two calls with the same plaintext
  and challenge, the first creating the credential and the second opening it, return
  the same envelope, which is a single block of 16 bytes with no room for a vector;
  and a cipher that returns the vector it is handed returns the derived key.
\<close>

theorem fresh_iv_counterexample:
  "setEncryptionKey (mock_hello False echo_signer) mock_crypto (Some [1, 2, 3]) (Some challenge16)
     = (Value (Some envelope123), []) \<and>
   setEncryptionKey (mock_hello True echo_signer) mock_crypto (Some [1, 2, 3]) (Some challenge16)
     = (Value (Some envelope123), []) \<and>
   length envelope123 = 16 \<and>
   deriveEncryptionKey (mock_hello True echo_signer) iv_spy challenge16 []
     = (Value (True, challenge16 @ replicate 16 0), []) \<and>
   setEncryptionKey (mock_hello True echo_signer) iv_spy (Some [1, 2, 3]) (Some challenge16)
     = (Value (Some (challenge16 @ replicate 16 0)), [])"
  by code_simp

text \<open>
  C2, amended. \<^verbatim>\<open>setEncryptionKey\<close> selects no fresh initialization vector and embeds
  none: the envelope is what the cipher returns for the plaintext, nothing more, under
  a key and a vector that are the same at every call with the challenge for which the
  signer returns the same signature. So two encryptions of one plaintext with one
  challenge return the same envelope, and \<^verbatim>\<open>getEncryptionKey\<close> decrypts any data
  under that same key and vector, which it derives again from the challenge and does
  not read from the envelope.
\<close>

theorem envelope_fixed_by_signature:
  assumes "setEncryptionKey h1 c (Some P) (Some C) = (Value (Some envelope), [])"
    and "init_apartment h2 = None"
    and "platform_signature h2 C = platform_signature h1 C"
  shows "setEncryptionKey h2 c (Some P) (Some C) = (Value (Some envelope), []) \<and>
         (\<exists>aesKey iv.
            Encrypt c aesKey P iv = Inr envelope \<and>
            (\<forall>data plain.
               Decrypt c aesKey data iv = Inr plain \<longrightarrow>
               getEncryptionKey h2 c (Some data) (Some C) = (Value (Some plain), [])))"
proof -
  from setEncryptionKey_success [OF assms(1)]
  obtain K aesKey where
    d1: "deriveEncryptionKey h1 c C [] = (Value (True, K), [])"
    and k: "CreateSymmetricKey c AesCbcPkcs7 K = Inr aesKey"
    and e: "Encrypt c aesKey P K = Inr envelope"
    by (auto simp: jbyteArrayToVector_def)
  from deriveEncryptionKey_true [OF d1]
  obtain S where s1: "platform_signature h1 C = Some S" and hs: "HashData c Sha256 S = Inr K"
    by blast
  from s1 assms(3) have s2: "platform_signature h2 C = Some S" by simp
  have d2: "deriveEncryptionKey h2 c C [] = (Value (True, K), [])"
    using deriveEncryptionKey_signed [OF s2, of c "[]"] hs by simp
  have set2: "setEncryptionKey h2 c (Some P) (Some C) = (Value (Some envelope), [])"
    using assms(2) d2 k e
    by (simp add: setEncryptionKey_def setEncryptionKey_try_def jbyteArrayToVector_def
        vectorToJbyteArray_def iBufferToVector_id)
  have get2: "getEncryptionKey h2 c (Some data) (Some C) = (Value (Some plain), [])"
    if "Decrypt c aesKey data K = Inr plain" for data plain
    using assms(2) d2 k that
    by (simp add: getEncryptionKey_def getEncryptionKey_try_def jbyteArrayToVector_def
        vectorToJbyteArray_def iBufferToVector_id)
  from set2 e get2 show ?thesis by blast
qed

theorem envelope_fixed_by_signature_witness:
  "setEncryptionKey (mock_hello False echo_signer) mock_crypto (Some [1, 2, 3]) (Some challenge16)
     = (Value (Some envelope123), []) \<and>
   init_apartment (mock_hello True echo_signer) = None \<and>
   platform_signature (mock_hello True echo_signer) challenge16
     = platform_signature (mock_hello False echo_signer) challenge16 \<and>
   setEncryptionKey (mock_hello True echo_signer) mock_crypto (Some [1, 2, 3]) (Some challenge16)
     = (Value (Some envelope123), []) \<and>
   (\<exists>aesKey iv.
      Encrypt mock_crypto aesKey [1, 2, 3] iv = Inr envelope123 \<and>
      (\<forall>data plain.
         Decrypt mock_crypto aesKey data iv = Inr plain \<longrightarrow>
         getEncryptionKey (mock_hello True echo_signer) mock_crypto (Some data) (Some challenge16)
           = (Value (Some plain), [])))"
proof -
  let ?h1 = "mock_hello False echo_signer"
  let ?h2 = "mock_hello True echo_signer"
  have a: "setEncryptionKey ?h1 mock_crypto (Some [1, 2, 3]) (Some challenge16)
             = (Value (Some envelope123), [])"
    by code_simp
  have b: "init_apartment ?h2 = None" by (simp add: mock_hello_def)
  have s: "platform_signature ?h2 challenge16 = platform_signature ?h1 challenge16"
    by code_simp
  from envelope_fixed_by_signature [OF a b s] a b s
  show ?thesis by blast
qed

subsection \<open>C3: failures\<close>

text \<open>
  C3. Whenever a step of \<^verbatim>\<open>setEncryptionKey\<close> or \<^verbatim>\<open>getEncryptionKey\<close> fails, the
  operation returns an empty byte array, prints a diagnostic and lets no exception
  leave it. This holds whenever \<^verbatim>\<open>deriveEncryptionKey\<close> returns \<^verbatim>\<open>false\<close>, which it
  does for the failures that its own handler of \<^verbatim>\<open>winrt::hresult_error\<close> catches
  (lemma \<open>deriveEncryptionKey_false\<close>). It fails for the steps of the entry points
  themselves: their handler catches \<^verbatim>\<open>std::exception\<close> only, so the
  \<^verbatim>\<open>hresult_error\<close> of a failed \<^verbatim>\<open>Decrypt\<close> or \<^verbatim>\<open>Encrypt\<close> (lemma
  \<open>cipher_exception_escapes\<close>), \<^verbatim>\<open>CreateSymmetricKey\<close> or \<^verbatim>\<open>init_apartment\<close> (lemma
  \<open>platform_exception_escapes\<close>) leaves the function. Here the ciphertext is one
  byte, which is not a whole block: no array is returned and nothing is printed.
\<close>

theorem decrypt_failure_escapes:
  "getEncryptionKey (mock_hello True echo_signer) mock_crypto (Some [0]) (Some challenge16)
     = (Throw_hresult (Hresult_error ''The parameter is incorrect.''), [])"
  by code_simp

subsection \<open>C4: the derived key\<close>

text \<open>
  C4. For every signature \<open>S\<close> that the signing step produces, the derived key is the
  SHA-256 hash of \<open>S\<close> and of nothing else: it does not depend on the challenge, on
  the credential or on the previous content of \<^verbatim>\<open>key\<close> except through \<open>S\<close>. Its
  length is the digest length, 32 bytes. The one other outcome is that the hash call
  itself throws, and then no key is derived.
\<close>

theorem derived_key_is_sha256_of_signature:
  assumes "platform_signature h challenge = Some S" and "sha256_lengths c"
  shows "(\<exists>digest. HashData c Sha256 S = Inr digest \<and> length digest = 32 \<and>
            deriveEncryptionKey h c challenge key = (Value (True, digest), [])) \<or>
         (\<exists>ex. HashData c Sha256 S = Inl ex \<and>
            deriveEncryptionKey h c challenge key = (Value (False, key), [message ex]))"
proof (cases "HashData c Sha256 S")
  case (Inl ex)
  with deriveEncryptionKey_signed [OF assms(1), of c key] show ?thesis by simp
next
  case (Inr digest)
  moreover from Inr assms(2) have "length digest = 32"
    unfolding sha256_lengths_def by blast
  ultimately show ?thesis
    using deriveEncryptionKey_signed [OF assms(1), of c key] by simp
qed

theorem derived_key_is_sha256_of_signature_witness:
  "platform_signature (mock_hello True (fixed_signer signature64)) challenge16 = Some signature64 \<and>
   sha256_lengths mock_crypto \<and>
   HashData mock_crypto Sha256 signature64 = Inr (replicate 32 0xA5) \<and>
   deriveEncryptionKey (mock_hello True (fixed_signer signature64)) mock_crypto challenge16 []
     = (Value (True, replicate 32 0xA5), [])"
proof -
  let ?h = "mock_hello True (fixed_signer signature64)"
  have s: "platform_signature ?h challenge16 = Some signature64" by code_simp
  have d: "HashData mock_crypto Sha256 signature64 = Inr (replicate 32 0xA5)" by code_simp
  from derived_key_is_sha256_of_signature [OF s mock_crypto_sha256_lengths, of "[]"] s d
    mock_crypto_sha256_lengths
  show ?thesis by auto
qed

subsection \<open>C5: obtaining the credential\<close>

text \<open>
  C5. \<^verbatim>\<open>deriveEncryptionKey\<close> obtains the credential as \<open>obtainCredential\<close> words it,
  under the fixed name: it attempts a creation that fails if the credential exists;
  if the creation reports that the credential already exists, it opens the existing
  one and goes on with it; if the creation fails for any other reason, it prints a
  message and returns \<^verbatim>\<open>false\<close> without a second attempt, and both entry points
  return the empty array.
\<close>

theorem credential_obtained_as_specified:
  "deriveEncryptionKey_try h c challenge key =
     (case obtainCredential h s_winHelloKeyName of
        Obtained result \<Rightarrow> deriveEncryptionKey_sign h c result challenge key
      | CredentialUnavailable \<Rightarrow>
          (Value (False, key), [''Failed to create Windows Hello credential.''])
      | Raised ex \<Rightarrow> (Throw_hresult ex, [])) \<and>
   (init_apartment h = None \<and> obtainCredential h s_winHelloKeyName = CredentialUnavailable \<longrightarrow>
      setEncryptionKey h c data salt =
        (Value (Some []), [''Failed to create Windows Hello credential.'',
                           ''Error: Failed to generate the encryption key.'']) \<and>
      getEncryptionKey h c data salt =
        (Value (Some []), [''Failed to create Windows Hello credential.'',
                           ''Error: Failed to generate the encryption key.'']))"
proof -
  have t: "deriveEncryptionKey_try h c challenge key =
     (case obtainCredential h s_winHelloKeyName of
        Obtained result \<Rightarrow> deriveEncryptionKey_sign h c result challenge key
      | CredentialUnavailable \<Rightarrow>
          (Value (False, key), [''Failed to create Windows Hello credential.''])
      | Raised ex \<Rightarrow> (Throw_hresult ex, []))" for challenge key
    by (simp add: deriveEncryptionKey_try_def obtainCredential_def
        split: sum.split KeyCredentialStatus.split)
  have "deriveEncryptionKey h c saltVec [] =
          (Value (False, []), [''Failed to create Windows Hello credential.''])"
    if "obtainCredential h s_winHelloKeyName = CredentialUnavailable" for saltVec
    using that by (simp add: deriveEncryptionKey_def t)
  then show ?thesis
    by (simp add: t setEncryptionKey_def setEncryptionKey_try_def
        getEncryptionKey_def getEncryptionKey_try_def)
qed

theorem credential_obtained_as_specified_witness:
  "init_apartment locked_hello = None \<and>
   obtainCredential locked_hello s_winHelloKeyName = CredentialUnavailable \<and>
   setEncryptionKey locked_hello mock_crypto (Some [1, 2, 3]) (Some challenge16) =
     (Value (Some []), [''Failed to create Windows Hello credential.'',
                        ''Error: Failed to generate the encryption key.'']) \<and>
   getEncryptionKey locked_hello mock_crypto (Some envelope123) (Some challenge16) =
     (Value (Some []), [''Failed to create Windows Hello credential.'',
                        ''Error: Failed to generate the encryption key.''])"
proof -
  have i: "init_apartment locked_hello = None"
    by (simp add: locked_hello_def mock_hello_def)
  have o: "obtainCredential locked_hello s_winHelloKeyName = CredentialUnavailable"
    by (simp add: locked_hello_def mock_hello_def obtainCredential_def)
  from credential_obtained_as_specified [of locked_hello mock_crypto] i o
  show ?thesis by simp
qed

subsection \<open>C6: cancellation\<close>

text \<open>
  C6 as stated (a cancelled signing is classified as \<open>UserCancelled\<close>, an outcome
  distinct from \<open>SigningFailed\<close>) does not hold: for a cancelled signing and for one
  that failed with \<^verbatim>\<open>UnknownError\<close>, \<^verbatim>\<open>deriveEncryptionKey\<close> returns the same
  \<^verbatim>\<open>false\<close> and the entry points return the same empty array and print the same
  \<^verbatim>\<open>Error\<close> line. The one difference is a line of output.
\<close>

theorem cancellation_counterexample:
  "setEncryptionKey (mock_hello True (failing_signer UserCanceled)) mock_crypto
       (Some [1, 2, 3]) (Some challenge16)
     = (Value (Some []), [''Error: Failed to generate the encryption key.'']) \<and>
   setEncryptionKey (mock_hello True (failing_signer UnknownError)) mock_crypto
       (Some [1, 2, 3]) (Some challenge16)
     = (Value (Some []), [''Failed to sign challenge using Windows Hello.'',
                          ''Error: Failed to generate the encryption key.'']) \<and>
   deriveEncryptionKey (mock_hello True (failing_signer UserCanceled)) mock_crypto challenge16 []
     = (Value (False, []), []) \<and>
   fst (deriveEncryptionKey (mock_hello True (failing_signer UnknownError)) mock_crypto
          challenge16 [])
     = Value (False, []) \<and>
   fst (getEncryptionKey (mock_hello True (failing_signer UserCanceled)) mock_crypto
          (Some envelope123) (Some challenge16))
     = fst (getEncryptionKey (mock_hello True (failing_signer UnknownError)) mock_crypto
          (Some envelope123) (Some challenge16))"
  by code_simp

text \<open>
  C6, amended. When the signing step reports user cancellation, \<^verbatim>\<open>setEncryptionKey\<close>
  and \<^verbatim>\<open>getEncryptionKey\<close> return the empty array, as they do for every other
  unsuccessful status of the signing; they return no classification of the failure.
  Both print \<^verbatim>\<open>Error: Failed to generate the encryption key.\<close>; before it, every
  status but \<^verbatim>\<open>UserCanceled\<close> prints
  \<^verbatim>\<open>Failed to sign challenge using Windows Hello.\<close>
\<close>

theorem signing_failure_returns_empty:
  assumes "init_apartment h = None"
    and "platform_credential h = Some credential"
    and "RequestSignAsync h credential (jbyteArrayToVector salt) = Inr signature"
    and "OpStatus signature \<noteq> Success"
  shows "setEncryptionKey h c data salt =
           (Value (Some []),
            (if OpStatus signature = UserCanceled then []
             else [''Failed to sign challenge using Windows Hello.''])
            @ [''Error: Failed to generate the encryption key.'']) \<and>
         getEncryptionKey h c data salt = setEncryptionKey h c data salt"
proof -
  have "deriveEncryptionKey h c (jbyteArrayToVector salt) [] =
          (Value (False, []),
           if OpStatus signature = UserCanceled then []
           else [''Failed to sign challenge using Windows Hello.''])"
    using assms(2-4)
    by (auto simp: platform_credential_def deriveEncryptionKey_def
        deriveEncryptionKey_try_def deriveEncryptionKey_sign_def
        split: sum.splits option.splits if_splits KeyCredentialStatus.splits)
  with assms(1) show ?thesis
    by (simp add: setEncryptionKey_def setEncryptionKey_try_def
        getEncryptionKey_def getEncryptionKey_try_def)
qed

theorem signing_failure_returns_empty_witness:
  "init_apartment (mock_hello True (failing_signer UserCanceled)) = None \<and>
   platform_credential (mock_hello True (failing_signer UserCanceled)) = Some 0 \<and>
   RequestSignAsync (mock_hello True (failing_signer UserCanceled)) 0
       (jbyteArrayToVector (Some challenge16))
     = Inr (KeyCredentialOperationResult UserCanceled []) \<and>
   OpStatus (KeyCredentialOperationResult UserCanceled []) \<noteq> Success \<and>
   setEncryptionKey (mock_hello True (failing_signer UserCanceled)) mock_crypto
       (Some [1, 2, 3]) (Some challenge16)
     = (Value (Some []), [''Error: Failed to generate the encryption key.'']) \<and>
   getEncryptionKey (mock_hello True (failing_signer UserCanceled)) mock_crypto
       (Some [1, 2, 3]) (Some challenge16)
     = (Value (Some []), [''Error: Failed to generate the encryption key.''])"
proof -
  let ?h = "mock_hello True (failing_signer UserCanceled)"
  let ?r = "KeyCredentialOperationResult UserCanceled []"
  have i: "init_apartment ?h = None" by (simp add: mock_hello_def)
  have p: "platform_credential ?h = Some 0" by code_simp
  have r: "RequestSignAsync ?h 0 (jbyteArrayToVector (Some challenge16)) = Inr ?r"
    by (simp add: mock_hello_def failing_signer_def)
  have n: "OpStatus ?r \<noteq> Success" by simp
  from signing_failure_returns_empty [OF i p r n, of mock_crypto "Some [1, 2, 3]"] i p r
  show ?thesis by simp
qed

subsection \<open>C7: no check of the signature\<close>

text \<open>
  C7 as stated (an empty or invalid signature is rejected with \<open>InvalidSignature\<close>
  and not hashed into a key) does not hold: a signer that returns the empty signature
  with status \<^verbatim>\<open>Success\<close> gets it hashed, and the key is used to encrypt.
\<close>

theorem empty_signature_counterexample:
  "platform_signature (mock_hello True (fixed_signer [])) challenge16 = Some [] \<and>
   deriveEncryptionKey (mock_hello True (fixed_signer [])) mock_crypto challenge16 []
     = (Value (True, replicate 32 0), []) \<and>
   setEncryptionKey (mock_hello True (fixed_signer [])) mock_crypto
       (Some [1, 2, 3]) (Some challenge16)
     = (Value (Some [1, 2, 3, 13, 13, 13, 13, 13, 13, 13, 13, 13, 13, 13, 13, 13]), [])"
  by code_simp

text \<open>
  C7, amended. The key derivation checks no signature: whatever signature the signing
  step returns, the empty one included, is hashed, and the derivation succeeds exactly
  when the hash call does. When the hash call throws, \<^verbatim>\<open>deriveEncryptionKey\<close> prints
  the exception's message and returns \<^verbatim>\<open>false\<close>, the key untouched; it has no other
  failure of its own.
\<close>

theorem every_signature_is_hashed:
  assumes "platform_signature h challenge = Some S"
  shows "(fst (deriveEncryptionKey h c challenge key) = Value (True, digest)
            \<longleftrightarrow> HashData c Sha256 S = Inr digest) \<and>
         (deriveEncryptionKey h c challenge key = (Value (False, key), [line])
            \<longleftrightarrow> (\<exists>ex. HashData c Sha256 S = Inl ex \<and> line = message ex))"
  using deriveEncryptionKey_signed [OF assms, of c key]
  by (cases "HashData c Sha256 S") auto

theorem every_signature_is_hashed_witness:
  "platform_signature (mock_hello True (fixed_signer [])) challenge16 = Some [] \<and>
   HashData mock_crypto Sha256 [] = Inr (replicate 32 0) \<and>
   fst (deriveEncryptionKey (mock_hello True (fixed_signer [])) mock_crypto challenge16 [])
     = Value (True, replicate 32 0)"
proof -
  let ?h = "mock_hello True (fixed_signer [])"
  have s: "platform_signature ?h challenge16 = Some []" by code_simp
  have d: "HashData mock_crypto Sha256 [] = Inr (replicate 32 0)" by code_simp
  from every_signature_is_hashed [OF s, of mock_crypto "[]" "replicate 32 0"] s d
  show ?thesis by simp
qed

subsection \<open>C8: another challenge\<close>

text \<open>
  C8 as stated (for challenges \<open>C1 \<noteq> C2\<close> and a signer that is a function of the
  challenge, decrypting with \<open>C2\<close> what was encrypted with \<open>C1\<close> fails, and returns
  neither the plaintext nor other bytes) does not hold. With a signer that gives every
  challenge the same signature, the plaintext comes back; with a signer that gives
  the two challenges different signatures, three bytes that are not the plaintext
  come back as a success, with nothing printed.
\<close>

theorem wrong_challenge_counterexample:
  "challenge16 \<noteq> challenge16' \<and>
   setEncryptionKey (mock_hello False (fixed_signer signature64)) mock_crypto
       (Some [1, 2, 3]) (Some challenge16)
     = (Value (Some [73, 76, 75, 77, 77, 77, 77, 77, 77, 77, 77, 77, 77, 77, 77, 77]), []) \<and>
   getEncryptionKey (mock_hello True (fixed_signer signature64)) mock_crypto
       (Some [73, 76, 75, 77, 77, 77, 77, 77, 77, 77, 77, 77, 77, 77, 77, 77])
       (Some challenge16')
     = (Value (Some [1, 2, 3]), []) \<and>
   platform_signature (mock_hello True echo_signer) challenge16
     \<noteq> platform_signature (mock_hello True echo_signer) challenge16' \<and>
   setEncryptionKey (mock_hello True echo_signer) mock_crypto (Some [1, 2, 3]) (Some challenge16)
     = (Value (Some envelope123), []) \<and>
   getEncryptionKey (mock_hello True echo_signer) mock_crypto (Some envelope123)
       (Some challenge16')
     = (Value (Some [1, 4, 3]), [])"
  by code_simp

text \<open>
  C8, amended. \<^verbatim>\<open>getEncryptionKey\<close> checks nothing about the challenge or the
  envelope itself: it derives the key from the signature of the challenge it is given,
  and whatever the cipher's \<open>Decrypt\<close> returns for the envelope is returned as the
  result, with no diagnostic. So a second challenge gives back the plaintext when it
  gets the signature of the first (C1), and other bytes whenever the cipher accepts
  the envelope under the other key.
\<close>

theorem wrong_challenge_is_not_detected:
  assumes "init_apartment h = None"
    and "platform_signature h C2 = Some S2"
    and "HashData c Sha256 S2 = Inr K2"
    and "CreateSymmetricKey c AesCbcPkcs7 K2 = Inr aesKey2"
    and "Decrypt c aesKey2 envelope K2 = Inr plain"
  shows "getEncryptionKey h c (Some envelope) (Some C2) = (Value (Some plain), [])"
proof -
  have "deriveEncryptionKey h c (jbyteArrayToVector (Some C2)) [] = (Value (True, K2), [])"
    using deriveEncryptionKey_signed [OF assms(2), of c "[]"] assms(3)
    by (simp add: jbyteArrayToVector_def)
  from getEncryptionKey_decrypts [OF assms(1) this assms(4)] assms(5)
  show ?thesis by (simp add: jbyteArrayToVector_def)
qed

theorem wrong_challenge_is_not_detected_witness:
  "init_apartment (mock_hello True echo_signer) = None \<and>
   platform_signature (mock_hello True echo_signer) challenge16' = Some challenge16' \<and>
   HashData mock_crypto Sha256 challenge16' = Inr (challenge16' @ replicate 16 0) \<and>
   CreateSymmetricKey mock_crypto AesCbcPkcs7 (challenge16' @ replicate 16 0)
     = Inr (challenge16' @ replicate 16 0) \<and>
   Decrypt mock_crypto (challenge16' @ replicate 16 0) envelope123
       (challenge16' @ replicate 16 0)
     = Inr [1, 4, 3] \<and>
   getEncryptionKey (mock_hello True echo_signer) mock_crypto (Some envelope123)
       (Some challenge16')
     = (Value (Some [1, 4, 3]), [])"
proof -
  let ?h = "mock_hello True echo_signer"
  let ?K = "challenge16' @ replicate 16 0"
  have i: "init_apartment ?h = None" by (simp add: mock_hello_def)
  have s: "platform_signature ?h challenge16' = Some challenge16'" by code_simp
  have d: "HashData mock_crypto Sha256 challenge16' = Inr ?K" by code_simp
  have k: "CreateSymmetricKey mock_crypto AesCbcPkcs7 ?K = Inr ?K" by code_simp
  have x: "Decrypt mock_crypto ?K envelope123 ?K = Inr [1, 4, 3]" by code_simp
  from wrong_challenge_is_not_detected [OF i s d k x] i s d k x
  show ?thesis by blast
qed

subsection \<open>C9: null arrays\<close>




subsection \<open>C10: the length of the envelope\<close>

text \<open>
  C10. For every plaintext of length \<open>n\<close> on which \<^verbatim>\<open>setEncryptionKey\<close> succeeds (it
  returns a non-empty array, or it returns an array and has printed nothing), the
  envelope is exactly what the cipher returned for the plaintext, with no header and no
  initialization vector added, and so has \<open>(n div 16 + 1) * 16\<close> bytes, the length of
  the plaintext under PKCS7 padding.
\<close>

theorem envelope_is_the_padded_cipher_output:
  assumes "pkcs7_lengths c"
    and "setEncryptionKey h c cleartext salt = (Value (Some envelope), out)"
    and "envelope \<noteq> [] \<or> out = []"
  shows "length envelope = (length (jbyteArrayToVector cleartext) div 16 + 1) * 16 \<and>
         (\<exists>aesKey iv. Encrypt c aesKey (jbyteArrayToVector cleartext) iv = Inr envelope)"
proof -
  from assms(2,3) obtain K aesKey where
    k: "CreateSymmetricKey c AesCbcPkcs7 K = Inr aesKey"
    and e: "Encrypt c aesKey (jbyteArrayToVector cleartext) K = Inr envelope"
    by (auto simp: setEncryptionKey_def setEncryptionKey_try_def Let_def iBufferToVector_id
        vectorToJbyteArray_def
        split: sum.splits option.splits if_splits prod.splits cxx.splits)
  from assms(1) k e
  have "length envelope = (length (jbyteArrayToVector cleartext) div 16 + 1) * 16"
    unfolding pkcs7_lengths_def by blast
  with e show ?thesis by blast
qed

theorem envelope_is_the_padded_cipher_output_witness:
  "pkcs7_lengths mock_crypto \<and>
   setEncryptionKey (mock_hello False (fixed_signer signature64)) mock_crypto
       (Some (replicate 32 0)) (Some challenge16)
     = (Value (Some
         [74, 74, 74, 74, 74, 74, 74, 74, 74, 74, 74, 74, 74, 74, 74, 74,
          239, 239, 239, 239, 239, 239, 239, 239, 239, 239, 239, 239, 239, 239, 239, 239,
          164, 164, 164, 164, 164, 164, 164, 164, 164, 164, 164, 164, 164, 164, 164, 164]), []) \<and>
   length
     [74, 74, 74, 74, 74, 74, 74, 74, 74, 74, 74, 74, 74, 74, 74, 74,
      239, 239, 239, 239, 239, 239, 239, 239, 239, 239, 239, 239, 239, 239, 239, 239,
      164, 164, 164, 164, 164, 164, 164, 164, 164, 164, 164, 164, 164, 164, 164, 164 :: uint8]
     = (length (jbyteArrayToVector (Some (replicate 32 0 :: bytes))) div 16 + 1) * 16"
proof -
  let ?E = "[74, 74, 74, 74, 74, 74, 74, 74, 74, 74, 74, 74, 74, 74, 74, 74,
          239, 239, 239, 239, 239, 239, 239, 239, 239, 239, 239, 239, 239, 239, 239, 239,
          164, 164, 164, 164, 164, 164, 164, 164, 164, 164, 164, 164, 164, 164, 164, 164] :: bytes"
  have a: "setEncryptionKey (mock_hello False (fixed_signer signature64)) mock_crypto
       (Some (replicate 32 0)) (Some challenge16) = (Value (Some ?E), [])"
    by code_simp
  have n: "?E \<noteq> [] \<or> ([] :: string list) = []" by simp
  from envelope_is_the_padded_cipher_output [OF mock_crypto_pkcs7_lengths a n]
    mock_crypto_pkcs7_lengths a
  show ?thesis by blast
qed

end
